theory Spec2Isabelle
  imports Main "HOL-Library.Word" "HOL-Library.Signed_Division"
begin

section \<open>Machine types of the Go program\<close>

text \<open>
  \<^verbatim>\<open>int32\<close> is a 32-bit word read in two's complement (\<open>sint\<close>), and
  \<^verbatim>\<open>time.Duration\<close> is an \<^verbatim>\<open>int64\<close> count of nanoseconds.
  Arithmetic on both wraps around, as Go's does. A \<^verbatim>\<open>time.Time\<close> is a
  point on one clock, counted in nanoseconds by an unbounded integer; the readings of
  \<^verbatim>\<open>time.Now()\<close> are inputs of the functions that take them.
\<close>

type_synonym int32 = "32 word"
type_synonym duration = "64 word"
type_synonym time = int

definition Millisecond :: duration where
  "Millisecond = 1000000"

definition Second :: duration where
  "Second = 1000000000"

text \<open>
  Go's integer division \<^verbatim>\<open>x / y\<close> on \<^verbatim>\<open>int32\<close>: the quotient is truncated
  towards zero, a zero divisor is a run-time panic, and the one quotient that does not
  fit (\<open>- 2^31 / - 1\<close>) wraps to \<open>- 2^31\<close>.
\<close>

datatype panic = DivideByZero | MakeChanSizeOutOfRange

definition div_int32 :: "int32 \<Rightarrow> int32 \<Rightarrow> panic + int32" where
  "div_int32 x y =
     (if y = 0 then Inl DivideByZero else Inr (word_of_int (sint x sdiv sint y)))"

section \<open>balance.go\<close>

definition ErrPts :: int32 where
  "ErrPts = - 1"

record Balance =
  Remaining :: int32
  Threshold :: int32
  Limit :: int32
  RefillRate :: int32

text \<open>
  \<^verbatim>\<open>ErrPts\<close> is a package variable; it has the value it is declared with.
  \<^verbatim>\<open>Update\<close> stores the points only when they are above it.
\<close>

definition Update :: "Balance \<Rightarrow> int32 \<Rightarrow> Balance" where
  "Update b points = (if ErrPts <s points then b\<lparr>Remaining := points\<rparr> else b)"

text \<open>
  \<^verbatim>\<open>NewBalance\<close> builds the struct, whose \<^verbatim>\<open>Remaining\<close> starts at the zero
  value, and then calls \<^verbatim>\<open>Update(max)\<close>.
\<close>

definition NewBalance :: "int32 \<Rightarrow> int32 \<Rightarrow> int32 \<Rightarrow> Balance" where
  "NewBalance thld mx rr =
     Update \<lparr>Remaining = 0, Threshold = thld, Limit = mx, RefillRate = rr\<rparr> mx"

text \<open>
  \<^verbatim>\<open>time.Duration((b.Limit-b.Remaining.Load())/b.RefillRate) * time.Second\<close>:
  the subtraction and the division are \<^verbatim>\<open>int32\<close> operations, the conversion
  extends the sign to 64 bits, the multiplication is an \<^verbatim>\<open>int64\<close> one.
\<close>

definition RefillDuration :: "Balance \<Rightarrow> panic + duration" where
  "RefillDuration b =
     (case div_int32 (Limit b - Remaining b) (RefillRate b) of
        Inl p \<Rightarrow> Inl p
      | Inr q \<Rightarrow> Inr (scast q * Second))"

definition AtThreshold :: "Balance \<Rightarrow> bool" where
  "AtThreshold b \<longleftrightarrow> Remaining b \<le>s Threshold b"

section \<open>semaphore.go\<close>

definition DefaultAquireBuffer :: duration where
  "DefaultAquireBuffer = 200 * Millisecond"

definition DefaultPauseBuffer :: duration where
  "DefaultPauseBuffer = 1 * Second"

subsection \<open>The channel of empty structs\<close>

text \<open>
  \<^verbatim>\<open>sema chan struct{}\<close> carries no data, so a channel is the number of values in
  its buffer, its capacity, and the number of goroutines parked in a receive.
  \<^verbatim>\<open>make(chan struct{}, cap)\<close> panics on a negative size. The send of
  \<^verbatim>\<open>Aquire\<close> stands in a \<^verbatim>\<open>select\<close> with a \<^verbatim>\<open>default\<close>, so it is
  taken only when it can go ahead at once: a receiver is parked (the value is handed to
  it and it wakes up) or the buffer has room. The receive of \<^verbatim>\<open>Release\<close> takes a
  value from the buffer, or parks the goroutine when the buffer is empty: the boolean of
  \<open>recv\<close> tells whether the receive came back.
\<close>

record chan =
  chan_len :: nat
  chan_cap :: nat
  chan_recvq :: nat

definition make_chan :: "int \<Rightarrow> panic + chan" where
  "make_chan n =
     (if n < 0 then Inl MakeChanSizeOutOfRange
      else Inr \<lparr>chan_len = 0, chan_cap = nat n, chan_recvq = 0\<rparr>)"

definition can_send :: "chan \<Rightarrow> bool" where
  "can_send c \<longleftrightarrow> 0 < chan_recvq c \<or> chan_len c < chan_cap c"

definition send :: "chan \<Rightarrow> chan" where
  "send c =
     (if 0 < chan_recvq c then c\<lparr>chan_recvq := chan_recvq c - 1\<rparr>
      else c\<lparr>chan_len := chan_len c + 1\<rparr>)"

definition recv :: "chan \<Rightarrow> chan \<times> bool" where
  "recv c =
     (if chan_len c = 0 then (c\<lparr>chan_recvq := chan_recvq c + 1\<rparr>, False)
      else (c\<lparr>chan_len := chan_len c - 1\<rparr>, True))"

subsection \<open>The Semaphore and its construction\<close>

text \<open>
  A callback is known by what calling it does: nothing (the defaults of
  \<^verbatim>\<open>NewSemaphore\<close>) or the caller's function, named by a number. A
  \<^verbatim>\<open>nil\<close> function field is \<open>None\<close>. The mutex \<^verbatim>\<open>mu\<close> is the flag
  "locked". \<^verbatim>\<open>Release\<close> holds it from its first statement to its last, so a call
  of \<^verbatim>\<open>Release\<close> is one transition of the state, and the mutex is seen locked
  only while a \<^verbatim>\<open>Release\<close> is parked in its receive.
\<close>

datatype callback = Noop | User nat

record Semaphore =
  balance :: Balance
  PauseFunc :: "callback option"
  ResumeFunc :: "callback option"
  PauseBuffer :: duration
  AquireBuffer :: duration
  pausedAt :: time
  sema :: chan
  mu :: bool
  paused :: bool

text \<open>The four functional options, and what each does to the Semaphore it is applied to.\<close>

datatype opt =
    WithPauseFunc "callback option"
  | WithResumeFunc "callback option"
  | WithAquireBuffer duration
  | WithPauseBuffer duration

fun apply_opt :: "opt \<Rightarrow> Semaphore \<Rightarrow> Semaphore" where
  "apply_opt (WithPauseFunc fn) sem = sem\<lparr>PauseFunc := fn\<rparr>"
| "apply_opt (WithResumeFunc fn) sem = sem\<lparr>ResumeFunc := fn\<rparr>"
| "apply_opt (WithAquireBuffer dur) sem = sem\<lparr>AquireBuffer := dur\<rparr>"
| "apply_opt (WithPauseBuffer dur) sem = sem\<lparr>PauseBuffer := dur\<rparr>"

text \<open>
  \<^verbatim>\<open>NewSemaphore\<close>: the struct literal sets the balance and the channel and leaves
  every other field at its zero value (the zero \<^verbatim>\<open>time.Time\<close> is the origin of
  the clock); the options run in order; then the three defaults are filled in.
\<close>

definition NewSemaphore :: "int \<Rightarrow> Balance \<Rightarrow> opt list \<Rightarrow> panic + Semaphore" where
  "NewSemaphore cap b opts =
     (case make_chan cap of
        Inl p \<Rightarrow> Inl p
      | Inr ch \<Rightarrow>
          (let sem0 = \<lparr>balance = b, PauseFunc = None, ResumeFunc = None, PauseBuffer = 0,
                        AquireBuffer = 0, pausedAt = 0, sema = ch, mu = False,
                        paused = False\<rparr>;
               sem1 = fold apply_opt opts sem0;
               sem2 = (if PauseFunc sem1 = None
                       then apply_opt (WithPauseFunc (Some Noop)) sem1 else sem1);
               sem3 = (if ResumeFunc sem2 = None
                       then apply_opt (WithResumeFunc (Some Noop)) sem2 else sem2);
               sem4 = (if AquireBuffer sem3 = 0
                       then apply_opt (WithAquireBuffer DefaultAquireBuffer) sem3 else sem3)
           in Inr sem4))"

subsection \<open>Aquire\<close>

text \<open>
  \<^verbatim>\<open>Aquire\<close> runs two loops: the inner one reads \<^verbatim>\<open>sem.paused\<close> again and
  again until it is false, the outer one repeats the \<^verbatim>\<open>select\<close>. What the call
  cannot know by itself comes as a list with one entry for each pass: whether
  \<^verbatim>\<open>ctx.Done()\<close> is closed at that pass (and with which \<^verbatim>\<open>ctx.Err()\<close>), and
  the case Go's \<^verbatim>\<open>select\<close> picks when both the \<^verbatim>\<open>Done\<close> case and the send
  can go ahead (the language picks one of the ready cases at random). The list is the
  fuel of the loops: when it ends the call is still inside them, \<open>NotReturned\<close>.
  Nothing else runs during the call, so the flag and the channel are as the call found
  them. The third component of the result records each pass that waited: \<open>Spin\<close>
  for a pass of the inner loop that found the flag set, \<open>Sleep d\<close> for
  \<^verbatim>\<open>time.Sleep(d)\<close> in the \<^verbatim>\<open>default\<close> case.
\<close>

datatype ctx_err = Canceled | DeadlineExceeded

datatype select_case = CaseDone | CaseSend

type_synonym pass = "ctx_err option \<times> select_case"

datatype wait = Spin | Sleep duration

datatype aquire_result = Returned "ctx_err option" | NotReturned

fun Aquire :: "Semaphore \<Rightarrow> pass list \<Rightarrow> Semaphore \<times> aquire_result \<times> wait list" where
  "Aquire sem [] = (sem, NotReturned, [])"
| "Aquire sem ((signal, pick) # passes) =
     (if paused sem then
        (case Aquire sem passes of (sem', r, ws) \<Rightarrow> (sem', r, Spin # ws))
      else
        (case (signal, can_send (sema sem), pick) of
           (Some e, True, CaseDone) \<Rightarrow> (sem, Returned (Some e), [])
         | (Some e, True, CaseSend) \<Rightarrow> (sem\<lparr>sema := send (sema sem)\<rparr>, Returned None, [])
         | (Some e, False, _) \<Rightarrow> (sem, Returned (Some e), [])
         | (None, True, _) \<Rightarrow> (sem\<lparr>sema := send (sema sem)\<rparr>, Returned None, [])
         | (None, False, _) \<Rightarrow>
             (case Aquire sem passes of
                (sem', r, ws) \<Rightarrow> (sem', r, Sleep (AquireBuffer sem) # ws))))"

subsection \<open>Release\<close>

text \<open>
  \<^verbatim>\<open>Release\<close> starts two goroutines when it pauses; they are the effects of the
  call, in the order of the \<^verbatim>\<open>go\<close> statements. The first effect carries the
  \<^verbatim>\<open>PauseFunc\<close> field as it is (calling a \<^verbatim>\<open>nil\<close> one would crash in the
  new goroutine) and the two arguments of the call. The two readings of
  \<^verbatim>\<open>time.Now()\<close> are the arguments \<open>now1\<close> (in the guard) and \<open>now2\<close> (stored
  in \<^verbatim>\<open>pausedAt\<close>). A call that finds the mutex locked waits in
  \<^verbatim>\<open>Lock\<close> and has done nothing yet (\<open>LockWait\<close>). The division of
  \<^verbatim>\<open>RefillDuration\<close> can panic: the call then ends before the receive, and the
  deferred \<^verbatim>\<open>Unlock\<close> runs. A receive that finds the channel empty parks the call
  with the mutex still locked (\<open>Blocked\<close>); everything before the receive is done by
  then.
\<close>

datatype effect =
    GoPauseFunc "callback option" int32 duration
  | GoResume duration

datatype release_result = Released | Blocked | LockWait | Panicked panic

definition recv_sema :: "Semaphore \<Rightarrow> effect list \<Rightarrow> Semaphore \<times> release_result \<times> effect list" where
  "recv_sema sem effs =
     (case recv (sema sem) of
        (ch, True) \<Rightarrow> (sem\<lparr>sema := ch\<rparr>, Released, effs)
      | (ch, False) \<Rightarrow> (sem\<lparr>sema := ch, mu := True\<rparr>, Blocked, effs))"

definition Release :: "Semaphore \<Rightarrow> int32 \<Rightarrow> time \<Rightarrow> time \<Rightarrow> Semaphore \<times> release_result \<times> effect list" where
  "Release sem0 pts now1 now2 =
     (if mu sem0 then (sem0, LockWait, [])
      else
        (let sem = sem0\<lparr>balance := Update (balance sem0) pts\<rparr> in
         if AtThreshold (balance sem) then
           (case RefillDuration (balance sem) of
              Inl p \<Rightarrow> (sem, Panicked p, [])
            | Inr rd \<Rightarrow>
                (let ra = rd + PauseBuffer sem in
                 if pausedAt sem + sint ra < now1 then
                   recv_sema (sem\<lparr>paused := True, pausedAt := now2\<rparr>)
                     [GoPauseFunc (PauseFunc sem) pts ra, GoResume ra]
                 else recv_sema sem []))
         else recv_sema sem []))"

text \<open>
  The goroutine behind \<open>GoResume ra\<close>, once its \<^verbatim>\<open>time.Sleep(ra)\<close> is over:
  it clears the flag and calls \<^verbatim>\<open>ResumeFunc\<close>, which is the second component.
\<close>

definition resume :: "Semaphore \<Rightarrow> Semaphore \<times> callback option" where
  "resume sem = (sem\<lparr>paused := False\<rparr>, ResumeFunc sem)"

subsection \<open>Sequences of calls\<close>

text \<open>
  A history of a Semaphore is a list of events, each run to its end before the next: a
  stretch of a call of \<^verbatim>\<open>Aquire\<close> with its passes (a call that is still in its
  loops when its passes end goes on in a later stretch: the loops keep nothing from one
  pass to the next), a call of \<^verbatim>\<open>Release\<close> with its points and clock readings,
  or the end of a pause. \<open>exec\<close> gives the state after one event and what came back
  during it; when the send of an \<^verbatim>\<open>Aquire\<close> is handed to a parked
  \<^verbatim>\<open>Release\<close>, that call comes back too and unlocks the mutex. The two calls
  touch the channel in one send and one receive, each a single step of the Go runtime,
  so calls that run side by side act on the channel as the events of some history do.
  The slots held after a history are the calls of \<^verbatim>\<open>Aquire\<close> that returned no
  error less the calls of \<^verbatim>\<open>Release\<close> that came back.
\<close>

datatype event =
    CallAquire "pass list"
  | CallRelease int32 time time
  | ResumeFires

datatype outcome =
    AquireOut aquire_result
  | ReleaseOut release_result "effect list"
  | ResumeOut "callback option"

fun exec :: "Semaphore \<Rightarrow> event \<Rightarrow> Semaphore \<times> outcome list" where
  "exec sem (CallAquire passes) =
     (case Aquire sem passes of
        (sem', r, ws) \<Rightarrow>
          (if chan_recvq (sema sem') < chan_recvq (sema sem)
           then (sem'\<lparr>mu := False\<rparr>, [AquireOut r, ReleaseOut Released []])
           else (sem', [AquireOut r])))"
| "exec sem (CallRelease pts now1 now2) =
     (case Release sem pts now1 now2 of (sem', r, effs) \<Rightarrow> (sem', [ReleaseOut r effs]))"
| "exec sem ResumeFires =
     (case resume sem of (sem', fn) \<Rightarrow> (sem', [ResumeOut fn]))"

fun run :: "Semaphore \<Rightarrow> event list \<Rightarrow> Semaphore \<times> outcome list" where
  "run sem [] = (sem, [])"
| "run sem (ev # evs) =
     (case exec sem ev of
        (sem', outs) \<Rightarrow> (case run sem' evs of (sem'', outs') \<Rightarrow> (sem'', outs @ outs')))"

fun held :: "outcome list \<Rightarrow> int" where
  "held [] = 0"
| "held (AquireOut (Returned None) # outs) = held outs + 1"
| "held (ReleaseOut Released effs # outs) = held outs - 1"
| "held (out # outs) = held outs"

subsection \<open>The constructor of the tests, and states for the examples\<close>

text \<open>
  \<^verbatim>\<open>newSemaphore\<close> is the helper of the test file: a Semaphore over
  \<^verbatim>\<open>NewBalance(900, 1000, 100)\<close>. \<open>started n\<close> is the Semaphore that
  \<open>newSemaphore n []\<close> returns, \<open>one_held\<close> and \<open>two_held\<close> are such Semaphores
  with every slot taken, and \<open>pausing\<close> is \<open>one_held\<close> after
  \<^verbatim>\<open>Release(900)\<close>. \<open>clock0\<close> is a reading of the clock, in
  nanoseconds after the zero \<^verbatim>\<open>time.Time\<close>. \<open>wrapped\<close> is a balance whose
  limit is the least \<^verbatim>\<open>int32\<close>; \<open>misconfigured\<close> and \<open>inverted\<close> are what
  \<open>NewSemaphore 0 (NewBalance 2000 1000 0) []\<close> and
  \<open>NewSemaphore 1 (NewBalance 2000 1000 100) []\<close> return.
\<close>

definition newSemaphore :: "int \<Rightarrow> opt list \<Rightarrow> panic + Semaphore" where
  "newSemaphore cap opts = NewSemaphore cap (NewBalance 900 1000 100) opts"

definition started :: "nat \<Rightarrow> Semaphore" where
  "started n =
     \<lparr>balance = \<lparr>Remaining = 1000, Threshold = 900, Limit = 1000, RefillRate = 100\<rparr>,
      PauseFunc = Some Noop, ResumeFunc = Some Noop, PauseBuffer = 0,
      AquireBuffer = 200000000, pausedAt = 0,
      sema = \<lparr>chan_len = 0, chan_cap = n, chan_recvq = 0\<rparr>, mu = False, paused = False\<rparr>"

definition clock0 :: time where
  "clock0 = 64000000000000000000"

definition wrapped :: Balance where
  "wrapped = Update (NewBalance 0 (- 2147483648) 1) 1"

definition one_held :: Semaphore where
  "one_held = fst (Aquire (started 1) [(None, CaseSend)])"

definition two_held :: Semaphore where
  "two_held = fst (Aquire (fst (Aquire (started 2) [(None, CaseSend)])) [(None, CaseSend)])"

definition pausing :: Semaphore where
  "pausing = fst (Release one_held 900 clock0 clock0)"

definition misconfigured :: Semaphore where
  "misconfigured =
     \<lparr>balance = \<lparr>Remaining = 1000, Threshold = 2000, Limit = 1000, RefillRate = 0\<rparr>,
      PauseFunc = Some Noop, ResumeFunc = Some Noop, PauseBuffer = 0,
      AquireBuffer = 200000000, pausedAt = 0,
      sema = \<lparr>chan_len = 0, chan_cap = 0, chan_recvq = 0\<rparr>, mu = False, paused = False\<rparr>"

definition inverted :: Semaphore where
  "inverted =
     \<lparr>balance = \<lparr>Remaining = 1000, Threshold = 2000, Limit = 1000, RefillRate = 100\<rparr>,
      PauseFunc = Some Noop, ResumeFunc = Some Noop, PauseBuffer = 0,
      AquireBuffer = 200000000, pausedAt = 0,
      sema = \<lparr>chan_len = 0, chan_cap = 1, chan_recvq = 0\<rparr>, mu = False, paused = False\<rparr>"

section \<open>Arithmetic of the machine integers\<close>

lemma sdiv_abs:
  fixes x y :: int
  shows "\<bar>x sdiv y\<bar> = \<bar>x\<bar> div \<bar>y\<bar>"
proof -
  have "0 \<le> \<bar>x\<bar> div \<bar>y\<bar>" by (simp add: pos_imp_zdiv_nonneg_iff div_int_pos_iff)
  then show ?thesis
    by (cases "x = 0"; cases "y = 0") (simp_all add: signed_divide_int_def abs_mult abs_sgn_eq)
qed

lemma sdiv_bounds:
  fixes x y :: int
  assumes "0 < y"
  shows "\<bar>x sdiv y\<bar> \<le> \<bar>x\<bar>"
proof -
  have "\<bar>x\<bar> div \<bar>y\<bar> \<le> \<bar>x\<bar> div 1"
    using assms by (intro zdiv_mono2) auto
  then show ?thesis by (simp add: sdiv_abs)
qed

lemma sdiv_pos_div:
  fixes x y :: int
  assumes "0 \<le> x" "0 < y"
  shows "x sdiv y = x div y"
  using assms by (cases "x = 0") (simp_all add: signed_divide_int_def)

lemma sdiv_neg_le0:
  fixes x y :: int
  assumes "x \<le> 0" "0 < y"
  shows "x sdiv y \<le> 0"
proof -
  have "0 \<le> \<bar>x\<bar> div \<bar>y\<bar>" by (simp add: pos_imp_zdiv_nonneg_iff div_int_pos_iff)
  then show ?thesis
    using assms by (cases "x = 0") (simp_all add: signed_divide_int_def)
qed

lemma sdiv_range32:
  fixes x y :: int
  assumes "0 < y" "- (2 ^ 31) \<le> x" "x < 2 ^ 31"
  shows "- (2 ^ 31) \<le> x sdiv y \<and> x sdiv y < 2 ^ 31"
proof (cases "0 \<le> x")
  case True
  then show ?thesis
    using sdiv_bounds [OF assms(1), of x] assms(2,3) by linarith
next
  case False
  then have "x sdiv y \<le> 0" using sdiv_neg_le0 [of x y] assms(1) by simp
  then show ?thesis
    using sdiv_bounds [OF assms(1), of x] assms(2,3) False by linarith
qed

lemma sint_sub32:
  fixes a b :: int32
  assumes "- (2 ^ 31) \<le> sint a - sint b" "sint a - sint b < 2 ^ 31"
  shows "sint (a - b) = sint a - sint b"
  using assms by (simp add: sint_word_ariths signed_take_bit_int_eq_self)

lemma sint_of_int32:
  assumes "- (2 ^ 31) \<le> k" "k < 2 ^ 31"
  shows "sint (word_of_int k :: int32) = k"
  using assms by (simp add: sint_sbintrunc' signed_take_bit_int_eq_self)

lemma sint_scast_duration: "sint (scast (q :: int32) :: duration) = sint q"
  by (simp add: sint_up_scast is_up)

lemma sint_mult64:
  fixes a b :: duration
  assumes "- (2 ^ 63) \<le> sint a * sint b" "sint a * sint b < 2 ^ 63"
  shows "sint (a * b) = sint a * sint b"
  using assms by (simp add: sint_word_ariths signed_take_bit_int_eq_self)

lemma sint_add64:
  fixes a b :: duration
  assumes "- (2 ^ 63) \<le> sint a + sint b" "sint a + sint b < 2 ^ 63"
  shows "sint (a + b) = sint a + sint b"
  using assms by (simp add: sint_word_ariths signed_take_bit_int_eq_self)

lemma sint_Second: "sint Second = 1000000000"
  by (simp add: Second_def)

text \<open>A quotient of \<^verbatim>\<open>int32\<close> range, taken in seconds, fits a duration.\<close>

lemma sint_seconds:
  fixes q :: int32
  shows "sint (scast q * Second) = sint q * 1000000000"
proof -
  have lo: "- (2 ^ 31) \<le> sint q" using sint_ge [of q] by simp
  have hi: "sint q < 2 ^ 31" using sint_lt [of q] by simp
  have "sint (scast q * Second) = sint (scast q :: duration) * sint Second"
  proof (rule sint_mult64)
    show "- (2 ^ 63) \<le> sint (scast q :: duration) * sint Second"
      using lo by (simp add: sint_scast_duration sint_Second)
    show "sint (scast q :: duration) * sint Second < 2 ^ 63"
      using hi by (simp add: sint_scast_duration sint_Second)
  qed
  then show ?thesis by (simp add: sint_scast_duration sint_Second)
qed

text \<open>
  Where the subtraction does not wrap and the rate is positive, the result is the
  truncated quotient of the integers, in nanoseconds.
\<close>

lemma RefillDuration_sint:
  assumes rr: "0 <s RefillRate b"
    and lo: "- (2 ^ 31) \<le> sint (Limit b) - sint (Remaining b)"
    and hi: "sint (Limit b) - sint (Remaining b) < 2 ^ 31"
  shows "\<exists>d. RefillDuration b = Inr d \<and>
           sint d = ((sint (Limit b) - sint (Remaining b)) sdiv sint (RefillRate b)) * 1000000000"
proof -
  let ?x = "sint (Limit b) - sint (Remaining b)"
  let ?y = "sint (RefillRate b)"
  have y: "0 < ?y" using rr by (simp add: word_sless_alt)
  then have nz: "RefillRate b \<noteq> 0" by auto
  have sub: "sint (Limit b - Remaining b) = ?x" using lo hi by (rule sint_sub32)
  have rng: "- (2 ^ 31) \<le> ?x sdiv ?y \<and> ?x sdiv ?y < 2 ^ 31"
    using y lo hi by (rule sdiv_range32)
  have q: "sint (word_of_int (?x sdiv ?y) :: int32) = ?x sdiv ?y"
    using rng by (simp add: sint_of_int32)
  have "RefillDuration b = Inr (scast (word_of_int (?x sdiv ?y) :: int32) * Second)"
    using nz by (simp add: RefillDuration_def div_int32_def sub)
  moreover have "sint (scast (word_of_int (?x sdiv ?y) :: int32) * Second) = (?x sdiv ?y) * 1000000000"
    by (simp only: sint_seconds q)
  ultimately show ?thesis by blast
qed


lemma no_wrap_nonneg:
  fixes l r :: int32
  assumes "0 \<le>s l" "0 \<le>s r"
  shows "- (2 ^ 31) \<le> sint l - sint r \<and> sint l - sint r < 2 ^ 31"
  using assms sint_lt [of l] sint_lt [of r] by (simp add: word_sle_eq)

lemma refill_nonneg:
  assumes rr: "0 <s RefillRate b" and r0: "0 \<le>s Remaining b" and rl: "Remaining b \<le>s Limit b"
    and d: "RefillDuration b = Inr rd"
  shows "0 \<le> sint rd \<and> sint rd < 2 ^ 31 * 1000000000"
proof -
  let ?x = "sint (Limit b) - sint (Remaining b)"
  let ?y = "sint (RefillRate b)"
  have y: "0 < ?y" using rr by (simp add: word_sless_alt)
  have x0: "0 \<le> ?x" using rl by (simp add: word_sle_eq)
  have xh: "?x < 2 ^ 31" using r0 sint_lt [of "Limit b"] by (simp add: word_sle_eq)
  have lo: "- (2 ^ 31) \<le> ?x" using x0 by simp
  obtain d' where d': "RefillDuration b = Inr d'" "sint d' = (?x sdiv ?y) * 1000000000"
    using RefillDuration_sint [OF rr lo xh] by blast
  have q: "?x sdiv ?y = ?x div ?y" using x0 y by (rule sdiv_pos_div)
  have q0: "0 \<le> ?x div ?y" using x0 y by (simp add: pos_imp_zdiv_nonneg_iff)
  have q1: "?x div ?y < 2 ^ 31"
    using sdiv_range32 [OF y lo xh] q by simp
  from d d' have "sint rd = (?x div ?y) * 1000000000" by (simp add: q)
  then show ?thesis using q0 q1 by simp
qed

section \<open>Evaluating the examples\<close>

lemmas eval_Release = Release_def Update_def ErrPts_def word_sless_alt AtThreshold_def
  word_sle_eq recv_sema_def recv_def RefillDuration_def div_int32_def signed_divide_int_def
  Second_def clock0_def started_def

lemma newSemaphore_started: "0 \<le> n \<Longrightarrow> newSemaphore n [] = Inr (started (nat n))"
  by (simp add: newSemaphore_def NewSemaphore_def make_chan_def NewBalance_def Update_def
      ErrPts_def word_sless_alt started_def DefaultAquireBuffer_def Millisecond_def)

lemma one_held_eq:
  "one_held = (started 1)\<lparr>sema := \<lparr>chan_len = 1, chan_cap = 1, chan_recvq = 0\<rparr>\<rparr>"
  by (simp add: one_held_def started_def can_send_def send_def)

lemma two_held_eq:
  "two_held = (started 2)\<lparr>sema := \<lparr>chan_len = 2, chan_cap = 2, chan_recvq = 0\<rparr>\<rparr>"
  by (simp add: two_held_def started_def can_send_def send_def)

lemma pausing_eq:
  "pausing = (started 1)\<lparr>balance := (balance (started 1))\<lparr>Remaining := 900\<rparr>,
      pausedAt := clock0, paused := True\<rparr>"
  by (simp add: pausing_def one_held_eq eval_Release)

section \<open>What the calls do to the channel\<close>

lemma Aquire_cases:
  "Aquire sem passes = (sem', r, ws) \<Longrightarrow>
     (r = Returned None \<and> can_send (sema sem) \<and> sem' = sem\<lparr>sema := send (sema sem)\<rparr>) \<or>
     (r \<noteq> Returned None \<and> sem' = sem)"
proof (induction passes arbitrary: sem' r ws)
  case Nil
  then show ?case by simp
next
  case (Cons p passes)
  obtain signal pick where p: "p = (signal, pick)" by (cases p)
  obtain s1 r1 w1 where rec: "Aquire sem passes = (s1, r1, w1)" by (cases "Aquire sem passes")
  from Cons.IH [OF rec] Cons.prems p rec show ?case
    by (auto split: if_splits option.splits bool.splits select_case.splits)
qed

lemma Release_sema:
  "Release sem pts now1 now2 = (sem', r, effs) \<Longrightarrow>
     chan_cap (sema sem') = chan_cap (sema sem) \<and>
     (if r = Released
      then 0 < chan_len (sema sem) \<and> chan_len (sema sem') = chan_len (sema sem) - 1
      else chan_len (sema sem') = chan_len (sema sem))"
  by (auto simp: Release_def recv_sema_def recv_def Let_def
      split: if_splits sum.splits prod.splits bool.splits)

lemma held_append: "held (xs @ ys) = held xs + held ys"
  by (induction xs rule: held.induct) simp_all

lemma held_not_aquired: "r \<noteq> Returned None \<Longrightarrow> held (AquireOut r # outs) = held outs"
  by (cases r) (auto split: option.splits)

lemma held_not_released: "r \<noteq> Released \<Longrightarrow> held (ReleaseOut r effs # outs) = held outs"
  by (cases r) auto

lemma exec_held:
  assumes "exec sem ev = (sem', outs)"
  shows "chan_cap (sema sem') = chan_cap (sema sem) \<and>
         int (chan_len (sema sem')) = int (chan_len (sema sem)) + held outs \<and>
         (chan_len (sema sem) \<le> chan_cap (sema sem) \<longrightarrow>
            chan_len (sema sem') \<le> chan_cap (sema sem'))"
proof (cases ev)
  case (CallAquire passes)
  obtain s1 r ws where a: "Aquire sem passes = (s1, r, ws)" by (cases "Aquire sem passes")
  from Aquire_cases [OF a] a assms CallAquire show ?thesis
    by (auto simp: send_def can_send_def held_not_aquired split: if_splits)
next
  case (CallRelease pts now1 now2)
  obtain s1 r effs where a: "Release sem pts now1 now2 = (s1, r, effs)"
    by (cases "Release sem pts now1 now2")
  from Release_sema [OF a] a assms CallRelease show ?thesis
    by (cases "r = Released") (auto simp: held_not_released split: if_splits)
next
  case ResumeFires
  with assms show ?thesis by (auto simp: resume_def)
qed

lemma run_held:
  "run sem evs = (sem', outs) \<Longrightarrow>
     chan_cap (sema sem') = chan_cap (sema sem) \<and>
     int (chan_len (sema sem')) = int (chan_len (sema sem)) + held outs \<and>
     (chan_len (sema sem) \<le> chan_cap (sema sem) \<longrightarrow>
        chan_len (sema sem') \<le> chan_cap (sema sem'))"
proof (induction evs arbitrary: sem sem' outs)
  case Nil
  then show ?case by simp
next
  case (Cons ev evs)
  obtain s1 o1 where e: "exec sem ev = (s1, o1)" by (cases "exec sem ev")
  obtain s2 o2 where r: "run s1 evs = (s2, o2)" by (cases "run s1 evs")
  from Cons.prems e r have eq: "sem' = s2" "outs = o1 @ o2" by simp_all
  from exec_held [OF e] Cons.IH [OF r] show ?case
    by (auto simp: eq held_append)
qed

lemma fold_apply_opt_fixed:
  "balance (fold apply_opt opts sem) = balance sem \<and>
   sema (fold apply_opt opts sem) = sema sem \<and>
   mu (fold apply_opt opts sem) = mu sem \<and>
   paused (fold apply_opt opts sem) = paused sem \<and>
   pausedAt (fold apply_opt opts sem) = pausedAt sem"
proof (induction opts arbitrary: sem)
  case Nil
  then show ?case by simp
next
  case (Cons a opts)
  show ?case by (cases a) (simp_all add: Cons.IH)
qed

lemma NewSemaphore_Inr:
  assumes "NewSemaphore cap b opts = Inr sem"
  shows "0 \<le> cap \<and> balance sem = b \<and>
         sema sem = \<lparr>chan_len = 0, chan_cap = nat cap, chan_recvq = 0\<rparr> \<and>
         \<not> mu sem \<and> \<not> paused sem \<and> pausedAt sem = 0"
  using assms
  by (auto simp: NewSemaphore_def make_chan_def Let_def fold_apply_opt_fixed
      split: if_splits)

lemma NewSemaphore_Inl:
  "(NewSemaphore cap b opts = Inl p) = (cap < 0 \<and> p = MakeChanSizeOutOfRange)"
  by (auto simp: NewSemaphore_def make_chan_def Let_def)

lemma NewSemaphore_total:
  "0 \<le> cap \<Longrightarrow> \<exists>sem. NewSemaphore cap b opts = Inr sem"
  by (cases "NewSemaphore cap b opts") (auto simp: NewSemaphore_Inl)

lemma fold_apply_opt_PauseBuffer:
  "\<forall>d. WithPauseBuffer d \<notin> set opts \<Longrightarrow>
     PauseBuffer (fold apply_opt opts sem) = PauseBuffer sem"
proof (induction opts arbitrary: sem)
  case Nil
  then show ?case by simp
next
  case (Cons a opts)
  then show ?case by (cases a) auto
qed

lemma NewSemaphore_PauseBuffer_zero:
  assumes "\<forall>d. WithPauseBuffer d \<notin> set opts" and "NewSemaphore cap b opts = Inr sem"
  shows "PauseBuffer sem = 0"
  using assms(2) fold_apply_opt_PauseBuffer [OF assms(1)]
  by (auto simp: NewSemaphore_def make_chan_def Let_def split: if_splits)

section \<open>What a call of Release does\<close>

lemma recv_sema_effs: "recv_sema sem effs = (sem', r, effs') \<Longrightarrow>
   effs' = effs \<and> r \<noteq> LockWait \<and> (\<forall>p. r \<noteq> Panicked p) \<and>
   balance sem' = balance sem \<and> paused sem' = paused sem \<and> pausedAt sem' = pausedAt sem \<and>
   PauseBuffer sem' = PauseBuffer sem \<and> PauseFunc sem' = PauseFunc sem \<and>
   mu sem' = (mu sem \<or> r = Blocked)"
  by (auto simp: recv_sema_def recv_def split: if_splits)

text \<open>What a call of \<open>Release\<close> that arms a pause has done.\<close>

lemma Release_armed:
  assumes "Release sem pts now1 now2 = (sem', r, effs)" and "effs \<noteq> []"
  shows "\<exists>rd. RefillDuration (Update (balance sem) pts) = Inr rd \<and>
           effs = [GoPauseFunc (PauseFunc sem) pts (rd + PauseBuffer sem),
                   GoResume (rd + PauseBuffer sem)] \<and>
           AtThreshold (Update (balance sem) pts) \<and>
           pausedAt sem + sint (rd + PauseBuffer sem) < now1 \<and>
           \<not> mu sem \<and> paused sem' \<and> pausedAt sem' = now2 \<and>
           balance sem' = Update (balance sem) pts \<and> PauseBuffer sem' = PauseBuffer sem"
  using assms
  by (auto simp: Release_def Let_def split: if_splits sum.splits dest!: recv_sema_effs)

text \<open>What a call of \<open>Release\<close> that arms no pause has left alone.\<close>

lemma Release_not_armed:
  assumes "Release sem pts now1 now2 = (sem', r, effs)" and "effs = []"
  shows "paused sem' = paused sem \<and> pausedAt sem' = pausedAt sem"
  using assms
  by (auto simp: Release_def Let_def split: if_splits sum.splits dest!: recv_sema_effs)

text \<open>
  The guard: where the refill duration is defined, a pause is armed exactly when the mutex
  is free, the updated balance is at the threshold, and \<open>pausedAt + ra\<close> is before the
  first reading of the clock.
\<close>

lemma Release_guard:
  assumes "Release sem pts now1 now2 = (sem', r, effs)"
    and "RefillDuration (Update (balance sem) pts) = Inr rd"
  shows "(effs \<noteq> []) =
     (\<not> mu sem \<and> AtThreshold (Update (balance sem) pts) \<and>
      pausedAt sem + sint (rd + PauseBuffer sem) < now1)"
  using assms
  by (auto simp: Release_def Let_def split: if_splits sum.splits dest!: recv_sema_effs)

section \<open>What a call of Aquire does\<close>

text \<open>While the flag is set, every pass is a pass of the inner loop.\<close>

lemma Aquire_paused:
  "paused sem \<Longrightarrow> Aquire sem passes = (sem, NotReturned, replicate (length passes) Spin)"
  by (induction passes) auto

text \<open>
  With the flag clear, every pass that waits sleeps for \<open>AquireBuffer\<close>, and a call that
  is still in its loop has slept at every pass.
\<close>

lemma Aquire_not_paused:
  "\<not> paused sem \<Longrightarrow> Aquire sem passes = (sem', r, ws) \<Longrightarrow>
     (\<exists>n \<le> length passes. ws = replicate n (Sleep (AquireBuffer sem))) \<and>
     (r = NotReturned \<longrightarrow> ws = replicate (length passes) (Sleep (AquireBuffer sem)))"
proof (induction passes arbitrary: sem' r ws)
  case Nil
  then show ?case by simp
next
  case (Cons p passes)
  obtain signal pick where p: "p = (signal, pick)" by (cases p)
  obtain s1 r1 w1 where rec: "Aquire sem passes = (s1, r1, w1)" by (cases "Aquire sem passes")
  from Cons.IH [OF Cons.prems(1) rec] obtain n where n: "n \<le> length passes"
    "w1 = replicate n (Sleep (AquireBuffer sem))"
    "r1 = NotReturned \<longrightarrow> w1 = replicate (length passes) (Sleep (AquireBuffer sem))"
    by blast
  show ?case
  proof (cases "signal = None \<and> \<not> can_send (sema sem)")
    case True
    with Cons.prems p rec have "ws = Sleep (AquireBuffer sem) # w1" "r = r1" by auto
    with n show ?thesis
      by (auto intro!: exI [of _ "Suc n"])
  next
    case False
    with Cons.prems p have "ws = [] \<and> r \<noteq> NotReturned"
      by (auto split: option.splits bool.splits select_case.splits)
    then show ?thesis by auto
  qed
qed

text \<open>A signal that has fired is reported at a pass with the flag clear and no slot free.\<close>

lemma Aquire_cancelled_full:
  "\<not> paused sem \<Longrightarrow> \<not> can_send (sema sem) \<Longrightarrow>
     Aquire sem ((Some e, pick) # passes) = (sem, Returned (Some e), [])"
  by simp

section \<open>Balance.Update\<close>

text \<open>
  Claim C6. For every balance and every observation \<open>p\<close>: when \<open>p\<close> is the sentinel
  \<open>- 1\<close>, \<open>Update\<close> leaves \<open>Remaining\<close> as it was; when \<open>p\<close> is strictly greater than
  the sentinel, \<open>Update\<close> sets \<open>Remaining\<close> to \<open>p\<close>; and \<open>Update 500\<close> followed by
  \<open>Update\<close> of the sentinel leaves \<open>Remaining = 500\<close>.
\<close>

theorem Update_sentinel:
  "(p = ErrPts \<longrightarrow> Remaining (Update b p) = Remaining b) \<and>
   (ErrPts <s p \<longrightarrow> Remaining (Update b p) = p) \<and>
   Remaining (Update (Update b 500) ErrPts) = 500"
  by (simp add: Update_def ErrPts_def word_sless_alt)

theorem Update_sentinel_witness:
  "(500 :: int32) \<noteq> ErrPts \<and> ErrPts <s (500 :: int32) \<and>
   Remaining (Update (NewBalance 100 1000 100) ErrPts) = 1000 \<and>
   Remaining (Update (NewBalance 100 1000 100) 500) = 500 \<and>
   Remaining (Update (Update (NewBalance 100 1000 100) 500) ErrPts) = 500"
  using Update_sentinel [of ErrPts "NewBalance 100 1000 100"]
    Update_sentinel [of 500 "NewBalance 100 1000 100"]
  by (simp add: ErrPts_def NewBalance_def Update_def word_sless_alt)

text \<open>
  Claim C10. For every balance and every observation \<open>p\<close> strictly below the sentinel
  \<open>- 1\<close> (such as \<open>- 2\<close> or \<open>- 100\<close>), \<open>Update\<close> leaves the balance unchanged, as it
  does for the sentinel: every value at or below \<open>- 1\<close> is a no-op.
\<close>

theorem Update_below_sentinel:
  "p \<le>s ErrPts \<Longrightarrow> Update b p = b"
  by (simp add: Update_def word_sle_eq word_sless_alt)

theorem Update_below_sentinel_witness:
  "(- 2 :: int32) \<le>s ErrPts \<and> (- 2 :: int32) <s ErrPts \<and>
   Update (NewBalance 100 1000 100) (- 2) = NewBalance 100 1000 100 \<and>
   (- 100 :: int32) <s ErrPts \<and>
   Remaining (Update (NewBalance 100 1000 100) (- 100)) = 1000"
proof -
  have a: "(- 2 :: int32) \<le>s ErrPts" by (simp add: ErrPts_def word_sle_eq)
  have b: "(- 100 :: int32) \<le>s ErrPts" by (simp add: ErrPts_def word_sle_eq)
  have c: "Remaining (NewBalance 100 1000 100) = 1000"
    by (simp add: NewBalance_def Update_def ErrPts_def word_sless_alt)
  show ?thesis
    using a Update_below_sentinel [OF a, of "NewBalance 100 1000 100"]
      Update_below_sentinel [OF b, of "NewBalance 100 1000 100"] c
    by (simp add: ErrPts_def word_sless_alt)
qed

section \<open>Balance.RefillDuration\<close>

text \<open>
  Claim C2, as amended. For every balance with a positive refill rate whose difference
  \<open>Limit - Remaining\<close> fits in an \<^verbatim>\<open>int32\<close> (as it does whenever both are
  at least 0), \<open>RefillDuration\<close> returns the quotient
  \<open>(Limit - Remaining) / RefillRate\<close>, truncated towards zero, in seconds; the
  quotient is the floor when \<open>Remaining\<close> is at most \<open>Limit\<close>. With limit 1000 and
  rate 100, a remaining balance of 1000 gives 0 seconds and one of 0 gives 10 seconds.
\<close>

theorem RefillDuration_truncated_quotient:
  assumes "0 <s RefillRate b"
    and "- (2 ^ 31) \<le> sint (Limit b) - sint (Remaining b)"
    and "sint (Limit b) - sint (Remaining b) < 2 ^ 31"
  shows "(\<exists>d. RefillDuration b = Inr d \<and>
            sint d =
              ((sint (Limit b) - sint (Remaining b)) sdiv sint (RefillRate b)) * 1000000000 \<and>
            (sint (Remaining b) \<le> sint (Limit b) \<longrightarrow>
               sint d =
                 ((sint (Limit b) - sint (Remaining b)) div sint (RefillRate b)) * 1000000000)) \<and>
         RefillDuration \<lparr>Remaining = 1000, Threshold = t, Limit = 1000, RefillRate = 100\<rparr> =
           Inr 0 \<and>
         RefillDuration \<lparr>Remaining = 0, Threshold = t, Limit = 1000, RefillRate = 100\<rparr> =
           Inr (10 * Second)"
proof -
  obtain d where d: "RefillDuration b = Inr d"
    "sint d = ((sint (Limit b) - sint (Remaining b)) sdiv sint (RefillRate b)) * 1000000000"
    using RefillDuration_sint [OF assms] by blast
  have y: "0 < sint (RefillRate b)" using assms(1) by (simp add: word_sless_alt)
  have fl: "sint d = ((sint (Limit b) - sint (Remaining b)) div sint (RefillRate b)) * 1000000000"
    if "sint (Remaining b) \<le> sint (Limit b)"
    using that y d(2) by (simp add: sdiv_pos_div)
  have e1: "RefillDuration \<lparr>Remaining = 1000, Threshold = t, Limit = 1000, RefillRate = 100\<rparr> =
      Inr 0"
    by (simp add: RefillDuration_def div_int32_def)
  have e2: "RefillDuration \<lparr>Remaining = 0, Threshold = t, Limit = 1000, RefillRate = 100\<rparr> =
      Inr (10 * Second)"
    by (simp add: RefillDuration_def div_int32_def signed_divide_int_def Second_def)
  show ?thesis using d fl e1 e2 by blast
qed

theorem RefillDuration_truncated_quotient_witness:
  "0 <s RefillRate (Update (NewBalance 100 1000 100) 300) \<and>
   sint (Limit (Update (NewBalance 100 1000 100) 300)) -
     sint (Remaining (Update (NewBalance 100 1000 100) 300)) = 700 \<and>
   (\<exists>d. RefillDuration (Update (NewBalance 100 1000 100) 300) = Inr d \<and>
      sint d = 7000000000)"
proof -
  let ?b = "Update (NewBalance 100 1000 100) 300"
  have b: "?b = \<lparr>Remaining = 300, Threshold = 100, Limit = 1000, RefillRate = 100\<rparr>"
    by (simp add: NewBalance_def Update_def ErrPts_def word_sless_alt)
  have h1: "0 <s RefillRate ?b" by (simp add: b word_sless_alt)
  have h2: "- (2 ^ 31) \<le> sint (Limit ?b) - sint (Remaining ?b)" by (simp add: b)
  have h3: "sint (Limit ?b) - sint (Remaining ?b) < 2 ^ 31" by (simp add: b)
  have v: "sint (Limit ?b) - sint (Remaining ?b) = 700" by (simp add: b)
  have q: "(700 :: int) sdiv 100 = 7" by (simp add: signed_divide_int_def)
  show ?thesis
    using RefillDuration_truncated_quotient [OF h1 h2 h3] h1 v
    by (simp add: b q)
qed

text \<open>
  The claim as it stands, for every balance with a positive rate, fails where the
  subtraction wraps: with limit \<open>- 2^31\<close>, a remaining balance of 1 and rate 1 the
  code returns \<open>2147483647\<close> seconds, and the quotient of the integers is
  \<open>- 2147483649\<close>, truncated or floored.
\<close>

theorem RefillDuration_wraps:
  "0 <s RefillRate wrapped \<and>
   RefillDuration wrapped = Inr (2147483647 * Second) \<and>
   sint (2147483647 * Second) = 2147483647000000000 \<and>
   ((sint (Limit wrapped) - sint (Remaining wrapped)) sdiv sint (RefillRate wrapped)) *
     1000000000 = - 2147483649000000000 \<and>
   ((sint (Limit wrapped) - sint (Remaining wrapped)) div sint (RefillRate wrapped)) *
     1000000000 = - 2147483649000000000"
proof -
  have b: "wrapped = \<lparr>Remaining = 1, Threshold = 0, Limit = - 2147483648, RefillRate = 1\<rparr>"
    by (simp add: wrapped_def NewBalance_def Update_def ErrPts_def word_sless_alt)
  show ?thesis
    by (simp add: b RefillDuration_def div_int32_def signed_divide_int_def Second_def
        word_sless_alt)
qed

section \<open>Construction\<close>

text \<open>
  Claim C5, as amended. Construction validates nothing and returns no error value.
  \<open>NewBalance\<close> returns a balance with the threshold, the limit and the refill rate it
  was given, whatever they are. \<open>NewSemaphore\<close> returns a Semaphore over the balance it
  was given, with an empty channel of the given capacity, for every capacity of at least
  0, zero included; a negative capacity, and nothing else, ends in the panic of
  \<^verbatim>\<open>make\<close>.
\<close>

theorem construction_validates_nothing:
  "Threshold (NewBalance thld mx rr) = thld \<and>
   Limit (NewBalance thld mx rr) = mx \<and>
   RefillRate (NewBalance thld mx rr) = rr \<and>
   (NewSemaphore cap b opts = Inl MakeChanSizeOutOfRange) = (cap < 0) \<and>
   (\<exists>sem. NewSemaphore cap b opts = Inr sem \<and> balance sem = b \<and>
      chan_cap (sema sem) = nat cap \<and> chan_len (sema sem) = 0) = (0 \<le> cap)"
proof -
  have 1: "Threshold (NewBalance thld mx rr) = thld \<and> Limit (NewBalance thld mx rr) = mx \<and>
      RefillRate (NewBalance thld mx rr) = rr"
    by (simp add: NewBalance_def Update_def)
  have 2: "(NewSemaphore cap b opts = Inl MakeChanSizeOutOfRange) = (cap < 0)"
    by (simp add: NewSemaphore_Inl)
  have 3: "(\<exists>sem. NewSemaphore cap b opts = Inr sem \<and> balance sem = b \<and>
      chan_cap (sema sem) = nat cap \<and> chan_len (sema sem) = 0) = (0 \<le> cap)"
  proof
    assume "\<exists>sem. NewSemaphore cap b opts = Inr sem \<and> balance sem = b \<and>
      chan_cap (sema sem) = nat cap \<and> chan_len (sema sem) = 0"
    then show "0 \<le> cap" using NewSemaphore_Inr by blast
  next
    assume c: "0 \<le> cap"
    then obtain sem where s: "NewSemaphore cap b opts = Inr sem"
      using NewSemaphore_total by blast
    from NewSemaphore_Inr [OF s] s
    show "\<exists>sem. NewSemaphore cap b opts = Inr sem \<and> balance sem = b \<and>
      chan_cap (sema sem) = nat cap \<and> chan_len (sema sem) = 0"
      by simp
  qed
  show ?thesis using 1 2 3 by blast
qed

text \<open>
  The claim as it stands fails: a refill rate of 0, a threshold above the limit and a
  capacity of 0 are all accepted, and the first \<open>Release\<close> at the threshold then
  panics in the division.
\<close>

theorem misconfiguration_accepted:
  "NewSemaphore 0 (NewBalance 2000 1000 0) [] = Inr misconfigured \<and>
   Release misconfigured 900 clock0 clock0 =
     (misconfigured\<lparr>balance := (balance misconfigured)\<lparr>Remaining := 900\<rparr>\<rparr>,
      Panicked DivideByZero, [])"
  by (simp add: NewSemaphore_def make_chan_def NewBalance_def Update_def
      ErrPts_def word_sless_alt misconfigured_def DefaultAquireBuffer_def Millisecond_def
      Release_def AtThreshold_def word_sle_eq RefillDuration_def div_int32_def)

text \<open>
  Claim C4. A Semaphore built by \<open>NewSemaphore\<close> without a pause-buffer option is to
  use \<open>DefaultPauseBuffer\<close>, one second, as its pause buffer, as it uses
  \<open>DefaultAquireBuffer\<close> for its acquire buffer. The code applies the second default
  and not the first: \<open>PauseBuffer\<close> stays 0, and the pause that \<^verbatim>\<open>Release(900)\<close>
  arms on \<open>newSemaphore 1 []\<close> lasts the refill duration of one second, with nothing
  added.
\<close>

theorem default_pause_buffer_not_applied:
  "NewSemaphore 1 (NewBalance 900 1000 100) [] = Inr (started 1) \<and>
   PauseBuffer (started 1) = 0 \<and>
   DefaultPauseBuffer = 1000000000 \<and>
   AquireBuffer (started 1) = DefaultAquireBuffer \<and>
   snd (run (started 1) [CallAquire [(None, CaseSend)], CallRelease 900 clock0 clock0]) =
     [AquireOut (Returned None),
      ReleaseOut Released [GoPauseFunc (Some Noop) 900 1000000000, GoResume 1000000000]]"
proof -
  have h1: "NewSemaphore 1 (NewBalance 900 1000 100) [] = Inr (started 1)"
    using newSemaphore_started [of 1] by (simp add: newSemaphore_def)
  have h2: "PauseBuffer (started 1) = 0 \<and> DefaultPauseBuffer = 1000000000 \<and>
      AquireBuffer (started 1) = DefaultAquireBuffer"
    by (simp add: started_def DefaultPauseBuffer_def DefaultAquireBuffer_def Second_def
        Millisecond_def)
  have h3: "snd (run (started 1) [CallAquire [(None, CaseSend)], CallRelease 900 clock0 clock0]) =
     [AquireOut (Returned None),
      ReleaseOut Released [GoPauseFunc (Some Noop) 900 1000000000, GoResume 1000000000]]"
    by (simp add: started_def can_send_def send_def Release_def Update_def ErrPts_def
        word_sless_alt AtThreshold_def word_sle_eq recv_sema_def recv_def
        RefillDuration_def div_int32_def signed_divide_int_def Second_def clock0_def)
  show ?thesis using h1 h2 h3 by blast
qed

section \<open>The capacity bound\<close>

text \<open>
  Claim C1. For every history of calls of \<open>Aquire\<close> and \<open>Release\<close> (and ends of
  pauses) on a Semaphore that \<open>NewSemaphore\<close> built with capacity \<open>cap\<close>, the number
  of slots held, that is the calls of \<open>Aquire\<close> that returned no error less the calls
  of \<open>Release\<close> that came back, lies between 0 and \<open>cap\<close>; it is the number of values
  in the channel.
\<close>

theorem held_slots_bounded:
  assumes "NewSemaphore cap b opts = Inr sem0" and "run sem0 evs = (sem, outs)"
  shows "0 \<le> held outs \<and> held outs \<le> cap \<and> held outs = int (chan_len (sema sem))"
  using NewSemaphore_Inr [OF assms(1)] run_held [OF assms(2)] by auto

theorem held_slots_bounded_witness:
  "NewSemaphore 1 (NewBalance 900 1000 100) [] = Inr (started 1) \<and>
   snd (run (started 1)
     [CallAquire [(None, CaseSend)], CallAquire [(None, CaseSend), (None, CaseSend)],
      CallRelease 1000 clock0 clock0, CallAquire [(None, CaseSend)]]) =
     [AquireOut (Returned None), AquireOut NotReturned, ReleaseOut Released [],
      AquireOut (Returned None)] \<and>
   held [AquireOut (Returned None), AquireOut NotReturned, ReleaseOut Released [],
      AquireOut (Returned None)] = 1"
proof -
  let ?evs = "[CallAquire [(None, CaseSend)], CallAquire [(None, CaseSend), (None, CaseSend)],
      CallRelease 1000 clock0 clock0, CallAquire [(None, CaseSend)]]"
  have h1: "NewSemaphore 1 (NewBalance 900 1000 100) [] = Inr (started 1)"
    using newSemaphore_started [of 1] by (simp add: newSemaphore_def)
  have h2: "run (started 1) ?evs = (fst (run (started 1) ?evs), snd (run (started 1) ?evs))"
    by simp
  have o: "snd (run (started 1) ?evs) =
     [AquireOut (Returned None), AquireOut NotReturned, ReleaseOut Released [],
      AquireOut (Returned None)]"
    by (simp add: started_def can_send_def send_def Release_def Update_def ErrPts_def
        word_sless_alt AtThreshold_def word_sle_eq recv_sema_def recv_def)
  show ?thesis
    using held_slots_bounded [OF h1 h2] h1 o by simp
qed

section \<open>The duration of a pause\<close>

text \<open>
  Claim C3, as amended. For every call of \<open>Release\<close> that arms a pause, the duration
  passed to the pause callback and slept before the resume is
  \<open>RefillDuration + PauseBuffer\<close> as computed, with no clamping. It is not negative
  whenever, after the update, the refill rate is positive, the remaining balance lies
  between 0 and the limit, and the pause buffer lies between 0 and \<open>2^62\<close>
  nanoseconds. A negative refill duration is passed on as it is.
\<close>

theorem pause_duration_not_clamped:
  assumes "Release sem pts now1 now2 = (sem', r, effs)" and "effs \<noteq> []"
  shows "\<exists>rd. RefillDuration (balance sem') = Inr rd \<and>
           effs = [GoPauseFunc (PauseFunc sem) pts (rd + PauseBuffer sem),
                   GoResume (rd + PauseBuffer sem)] \<and>
           (0 <s RefillRate (balance sem') \<and> 0 \<le>s Remaining (balance sem') \<and>
            Remaining (balance sem') \<le>s Limit (balance sem') \<and>
            0 \<le> sint (PauseBuffer sem) \<and> sint (PauseBuffer sem) \<le> 2 ^ 62 \<longrightarrow>
              0 \<le> sint (rd + PauseBuffer sem))"
proof -
  obtain rd where rd: "RefillDuration (Update (balance sem) pts) = Inr rd"
    "effs = [GoPauseFunc (PauseFunc sem) pts (rd + PauseBuffer sem),
             GoResume (rd + PauseBuffer sem)]"
    "balance sem' = Update (balance sem) pts"
    using Release_armed [OF assms] by blast
  have "0 \<le> sint (rd + PauseBuffer sem)"
    if h: "0 <s RefillRate (balance sem')" "0 \<le>s Remaining (balance sem')"
      "Remaining (balance sem') \<le>s Limit (balance sem')"
      "0 \<le> sint (PauseBuffer sem)" "sint (PauseBuffer sem) \<le> 2 ^ 62"
  proof -
    have b: "0 \<le> sint rd \<and> sint rd < 2 ^ 31 * 1000000000"
      using refill_nonneg [OF h(1,2,3)] rd(1,3) by simp
    have "sint (rd + PauseBuffer sem) = sint rd + sint (PauseBuffer sem)"
      using b h(4,5) by (intro sint_add64) simp_all
    then show ?thesis using b h(4) by simp
  qed
  then show ?thesis using rd by auto
qed

theorem pause_duration_not_clamped_witness:
  "snd (Release one_held 900 clock0 clock0) =
     (Released, [GoPauseFunc (Some Noop) 900 1000000000, GoResume 1000000000]) \<and>
   balance (fst (Release one_held 900 clock0 clock0)) =
     \<lparr>Remaining = 900, Threshold = 900, Limit = 1000, RefillRate = 100\<rparr> \<and>
   PauseBuffer one_held = 0 \<and>
   RefillDuration (balance (fst (Release one_held 900 clock0 clock0))) = Inr 1000000000 \<and>
   0 \<le> sint (1000000000 + PauseBuffer one_held)"
proof -
  let ?R = "Release one_held 900 clock0 clock0"
  have e: "snd ?R = (Released, [GoPauseFunc (Some Noop) 900 1000000000, GoResume 1000000000])"
    by (simp add: one_held_eq eval_Release)
  have h1: "?R = (fst ?R, Released, [GoPauseFunc (Some Noop) 900 1000000000, GoResume 1000000000])"
    using e by (metis prod.collapse)
  have h2: "[GoPauseFunc (Some Noop) 900 1000000000, GoResume 1000000000] \<noteq> []" by simp
  have b: "balance (fst ?R) = \<lparr>Remaining = 900, Threshold = 900, Limit = 1000, RefillRate = 100\<rparr>"
    by (simp add: one_held_eq eval_Release)
  have pb: "PauseBuffer one_held = 0" by (simp add: one_held_eq started_def)
  have hy: "0 <s RefillRate (balance (fst ?R)) \<and> 0 \<le>s Remaining (balance (fst ?R)) \<and>
      Remaining (balance (fst ?R)) \<le>s Limit (balance (fst ?R)) \<and>
      0 \<le> sint (PauseBuffer one_held) \<and> sint (PauseBuffer one_held) \<le> 2 ^ 62"
    by (simp add: b pb word_sless_alt word_sle_eq)
  show ?thesis
    using pause_duration_not_clamped [OF h1 h2] hy e b pb by auto
qed

text \<open>
  The claim as it stands fails: with threshold 2000 above limit 1000,
  \<^verbatim>\<open>Release(1500)\<close> is at the threshold with the remaining balance above the limit,
  and the pause it arms has the duration of minus five seconds.
\<close>

theorem negative_pause_duration:
  "NewSemaphore 1 (NewBalance 2000 1000 100) [] = Inr inverted \<and>
   snd (run inverted [CallAquire [(None, CaseSend)], CallRelease 1500 clock0 clock0]) =
     [AquireOut (Returned None),
      ReleaseOut Released
        [GoPauseFunc (Some Noop) 1500 (- 5000000000), GoResume (- 5000000000)]] \<and>
   sint (- 5000000000 :: duration) = - 5000000000"
proof -
  have h1: "NewSemaphore 1 (NewBalance 2000 1000 100) [] = Inr inverted"
    by (simp add: NewSemaphore_def make_chan_def NewBalance_def Update_def
      ErrPts_def word_sless_alt inverted_def DefaultAquireBuffer_def Millisecond_def)
  have h2: "snd (run inverted [CallAquire [(None, CaseSend)], CallRelease 1500 clock0 clock0]) =
     [AquireOut (Returned None),
      ReleaseOut Released
        [GoPauseFunc (Some Noop) 1500 (- 5000000000), GoResume (- 5000000000)]]"
    by (simp add: inverted_def can_send_def send_def eval_Release)
  have h3: "sint (- 5000000000 :: duration) = - 5000000000" by simp
  show ?thesis using h1 h2 h3 by blast
qed

section \<open>The cooldown guard\<close>

text \<open>
  Claim C7, as amended. Take a call of \<open>Release\<close> that arms a pause at \<open>t1'\<close>, and a
  later call of \<open>Release\<close> with no \<open>Release\<close> between them (calls of \<open>Aquire\<close> and
  ends of pauses may have changed the channel, the mutex and the flag). Let \<open>rd2\<close> be
  the refill duration of the balance as the second call updates it. If the second call
  reads a clock of at most \<open>t1' + rd2 + PauseBuffer\<close>, it arms no pause: the two calls
  start one pause callback and one resume between them, and \<open>pausedAt\<close> stays \<open>t1'\<close>.
  The second call arms a pause only when its clock is after \<open>t1' + rd2 + PauseBuffer\<close>
  and its balance is at the threshold. The window of the guard covers the pause of the
  first call whenever \<open>rd2\<close> is not shorter than the refill duration of the first.
\<close>

theorem cooldown_guard:
  assumes first: "Release sem p1 t1 t1' = (sem1, r1, effs1)" and armed: "effs1 \<noteq> []"
    and second: "Release (sem1\<lparr>sema := c, mu := m, paused := q\<rparr>) p2 t2 t2' = (sem2, r2, effs2)"
    and rd2: "RefillDuration (Update (balance sem1) p2) = Inr rd2"
  shows "(t2 \<le> t1' + sint (rd2 + PauseBuffer sem) \<longrightarrow>
            effs2 = [] \<and> pausedAt sem2 = t1' \<and> paused sem2 = q \<and>
            (\<exists>ra1. effs1 @ effs2 = [GoPauseFunc (PauseFunc sem) p1 ra1, GoResume ra1])) \<and>
         (effs2 \<noteq> [] \<longrightarrow>
            t1' + sint (rd2 + PauseBuffer sem) < t2 \<and>
            AtThreshold (Update (balance sem1) p2)) \<and>
         (\<forall>rd1. RefillDuration (Update (balance sem) p1) = Inr rd1 \<and>
            sint (rd1 + PauseBuffer sem) \<le> sint (rd2 + PauseBuffer sem) \<and>
            t2 \<le> t1' + sint (rd1 + PauseBuffer sem) \<longrightarrow> effs2 = [])"
proof -
  let ?s = "sem1\<lparr>sema := c, mu := m, paused := q\<rparr>"
  obtain ra1 where a: "effs1 = [GoPauseFunc (PauseFunc sem) p1 ra1, GoResume ra1]"
    "pausedAt sem1 = t1'" "PauseBuffer sem1 = PauseBuffer sem"
    using Release_armed [OF first armed] by blast
  have g: "(effs2 \<noteq> []) =
     (\<not> m \<and> AtThreshold (Update (balance sem1) p2) \<and>
      t1' + sint (rd2 + PauseBuffer sem) < t2)"
    using Release_guard [OF second] rd2 a(2,3) by simp
  have n: "pausedAt sem2 = t1' \<and> paused sem2 = q" if "effs2 = []"
    using Release_not_armed [OF second that] a(2) by simp
  show ?thesis using a(1) g n by auto
qed

theorem cooldown_guard_witness:
  "snd (Release two_held 900 clock0 clock0) =
     (Released, [GoPauseFunc (Some Noop) 900 1000000000, GoResume 1000000000]) \<and>
   RefillDuration (Update (balance (fst (Release two_held 900 clock0 clock0))) 900) =
     Inr 1000000000 \<and>
   clock0 + 500000000 \<le> clock0 + sint (1000000000 + PauseBuffer two_held) \<and>
   snd (Release (fst (Release two_held 900 clock0 clock0))
          900 (clock0 + 500000000) (clock0 + 500000000)) = (Released, []) \<and>
   snd (Release (fst (Release two_held 900 clock0 clock0))
          900 (clock0 + 2000000000) (clock0 + 2000000000)) =
     (Released, [GoPauseFunc (Some Noop) 900 1000000000, GoResume 1000000000]) \<and>
   clock0 + sint (1000000000 + PauseBuffer two_held) < clock0 + 2000000000"
proof -
  let ?R = "Release two_held 900 clock0 clock0"
  let ?s1 = "fst ?R"
  let ?s1' = "?s1\<lparr>sema := sema ?s1, mu := mu ?s1, paused := paused ?s1\<rparr>"
  let ?R2 = "Release ?s1' 900 (clock0 + 500000000) (clock0 + 500000000)"
  let ?R3 = "Release ?s1' 900 (clock0 + 2000000000) (clock0 + 2000000000)"
  have e: "snd ?R = (Released, [GoPauseFunc (Some Noop) 900 1000000000, GoResume 1000000000])"
    by (simp add: two_held_eq eval_Release)
  have h1: "?R = (?s1, Released, [GoPauseFunc (Some Noop) 900 1000000000, GoResume 1000000000])"
    using e by (metis prod.collapse)
  have h2: "[GoPauseFunc (Some Noop) 900 1000000000, GoResume 1000000000] \<noteq> []" by simp
  have h3: "?R2 = (fst ?R2, fst (snd ?R2), snd (snd ?R2))" by simp
  have h4: "RefillDuration (Update (balance ?s1) 900) = Inr 1000000000"
    by (simp add: two_held_eq eval_Release)
  have w: "clock0 + 500000000 \<le> clock0 + sint (1000000000 + PauseBuffer two_held)"
    by (simp add: two_held_eq started_def)
  have r: "fst (snd ?R2) = Released"
    by (simp add: two_held_eq eval_Release)
  have "snd (snd ?R2) = []"
    using cooldown_guard [OF h1 h2 h3 h4] w by blast
  then have inside: "snd ?R2 = (Released, [])" using r by (metis prod.collapse)
  have armed: "snd ?R3 =
      (Released, [GoPauseFunc (Some Noop) 900 1000000000, GoResume 1000000000])"
    by (simp add: two_held_eq eval_Release)
  have h5: "?R3 = (fst ?R3, Released,
      [GoPauseFunc (Some Noop) 900 1000000000, GoResume 1000000000])"
    using armed by (metis prod.collapse)
  have after: "clock0 + sint (1000000000 + PauseBuffer two_held) < clock0 + 2000000000"
    using cooldown_guard [OF h1 h2 h5 h4] by simp
  show ?thesis using e h4 w inside armed after by simp
qed

text \<open>
  The claim as it stands, with the window of the pause the first call armed, fails: the
  first call reports 0 points and pauses for ten seconds; the second, five seconds
  later, reports 900 points, at the threshold, for which the guard looks one second
  back; it arms a second pause inside the first.
\<close>

theorem second_pause_inside_first:
  "snd (run (started 2)
     [CallAquire [(None, CaseSend)], CallAquire [(None, CaseSend)],
      CallRelease 0 clock0 clock0,
      CallRelease 900 (clock0 + 5000000000) (clock0 + 5000000000)]) =
     [AquireOut (Returned None), AquireOut (Returned None),
      ReleaseOut Released [GoPauseFunc (Some Noop) 0 10000000000, GoResume 10000000000],
      ReleaseOut Released [GoPauseFunc (Some Noop) 900 1000000000, GoResume 1000000000]] \<and>
   clock0 + 5000000000 < clock0 + sint (10000000000 :: duration)"
  by (simp add: can_send_def send_def eval_Release)

section \<open>Cancellation and waiting in Aquire\<close>

text \<open>
  Claim C8. An \<open>Aquire\<close> whose cancellation signal fires before it has a slot, also
  while the Semaphore is paused, is to return the cancellation error and take no slot.
  The code does not always: with the signal fired and a slot free, the
  \<^verbatim>\<open>select\<close> may pick the send, and \<open>Aquire\<close> returns no error and holds the
  slot; and while the flag is set the inner loop does not look at the signal.
\<close>

theorem select_may_take_slot_after_cancel:
  "Aquire (started 1) [(Some Canceled, CaseSend)] =
     ((started 1)\<lparr>sema := \<lparr>chan_len = 1, chan_cap = 1, chan_recvq = 0\<rparr>\<rparr>, Returned None, []) \<and>
   paused pausing \<and>
   Aquire pausing [(Some DeadlineExceeded, CaseDone), (Some DeadlineExceeded, CaseDone)] =
     (pausing, NotReturned, [Spin, Spin])"
  by (simp add: pausing_eq started_def can_send_def send_def)

text \<open>
  Claim C9. Every pass of a waiting \<open>Aquire\<close> is to be throttled by the acquire
  buffer, whether it waits for a slot or for the end of a pause. The code throttles the
  first and not the second: on a paused Semaphore three passes are three reads of the
  flag with no sleep, where three passes on a full one sleep three times.
\<close>

theorem paused_wait_spins:
  "paused pausing \<and> AquireBuffer pausing = DefaultAquireBuffer \<and>
   Aquire pausing [(None, CaseSend), (None, CaseSend), (None, CaseSend)] =
     (pausing, NotReturned, [Spin, Spin, Spin]) \<and>
   Aquire one_held [(None, CaseSend), (None, CaseSend), (None, CaseSend)] =
     (one_held, NotReturned,
      [Sleep DefaultAquireBuffer, Sleep DefaultAquireBuffer, Sleep DefaultAquireBuffer])"
  by (simp add: pausing_eq one_held_eq started_def can_send_def DefaultAquireBuffer_def
      Millisecond_def)

end
